theory Spec2Isabelle
  imports Complex_Main "HOL-Library.List_Lexorder"
begin

section \<open>Python values used by both scripts\<close>

text \<open>
  A Python \<open>str\<close> is a sequence of Unicode code points, so it is modelled as a list of
  natural numbers.  \<open>u\<close> turns an ASCII literal into such a list.
\<close>

type_synonym pystr = "nat list"

definition u :: "string \<Rightarrow> pystr" where
  "u s = map of_char s"

text \<open>Every \<open>raise\<close> of the two scripts, and of the library calls they make, is a value.\<close>

datatype error =
    SystemExit pystr
  | KeyError pystr
  | ValueError pystr
  | FileNotFoundError pystr
  | FileExistsError pystr
  | NotADirectoryError pystr
  | CalledProcessError int "pystr list"
  | ExternalFailure pystr

text \<open>
  \<open>str.isspace\<close> for a single code point: the whitespace table of CPython
  (characters of category Zs or of bidirectional class WS, B or S).
\<close>

definition py_isspace :: "nat \<Rightarrow> bool" where
  "py_isspace c \<longleftrightarrow>
     (0x09 \<le> c \<and> c \<le> 0x0D) \<or> (0x1C \<le> c \<and> c \<le> 0x20) \<or> c = 0x85 \<or> c = 0xA0 \<or>
     c = 0x1680 \<or> (0x2000 \<le> c \<and> c \<le> 0x200A) \<or> c = 0x2028 \<or> c = 0x2029 \<or>
     c = 0x202F \<or> c = 0x205F \<or> c = 0x3000"

text \<open>\<open>str.strip()\<close> with no argument: drop leading and trailing whitespace.\<close>

definition py_strip :: "pystr \<Rightarrow> pystr" where
  "py_strip s = rev (dropWhile py_isspace (rev (dropWhile py_isspace s)))"

definition ascii_lower :: "nat \<Rightarrow> nat" where
  "ascii_lower c = (if 0x41 \<le> c \<and> c \<le> 0x5A then c + 0x20 else c)"

definition is_ascii :: "pystr \<Rightarrow> bool" where
  "is_ascii s = list_all (\<lambda>c. c < 0x80) s"

text \<open>
  \<open>str.lower()\<close>.  On a string of ASCII characters it maps \<open>A\<close>..\<open>Z\<close> to \<open>a\<close>..\<open>z\<close>.
  On any other string it is the lower-casing of the Unicode character database, which
  is not part of this repository and is taken as the parameter \<open>ulower\<close>.
\<close>

definition py_lower :: "(pystr \<Rightarrow> pystr) \<Rightarrow> pystr \<Rightarrow> pystr" where
  "py_lower ulower s = (if is_ascii s then map ascii_lower s else ulower s)"

text \<open>\<open>sep.join(xs)\<close>.\<close>

fun py_join :: "pystr \<Rightarrow> pystr list \<Rightarrow> pystr" where
  "py_join sep [] = []"
| "py_join sep [x] = x"
| "py_join sep (x # y # ys) = x @ sep @ py_join sep (y # ys)"

text \<open>
  \<open>repr\<close> of a string that holds no quote, no backslash and no control character (all
  the script ever prints this way are the two language codes): the string in single
  quotes.  \<open>repr\<close> of a list joins the \<open>repr\<close> of its elements.
\<close>

definition repr_str :: "pystr \<Rightarrow> pystr" where
  "repr_str s = [0x27] @ s @ [0x27]"

definition repr_list :: "pystr list \<Rightarrow> pystr" where
  "repr_list xs = u ''['' @ py_join (u '', '') xs @ u '']''"

text \<open>\<open>str\<close> of an integer: its decimal digits, with a minus sign when negative.\<close>

function digits :: "nat \<Rightarrow> pystr" where
  "digits n = (if n < 10 then [0x30 + n] else digits (n div 10) @ [0x30 + n mod 10])"
  by pat_completeness auto
termination
  by (relation "measure id") auto

declare digits.simps [simp del]

definition py_str_int :: "int \<Rightarrow> pystr" where
  "py_str_int i = (if i < 0 then 0x2D # digits (nat (- i)) else digits (nat i))"

text \<open>
  \<open>template.format(**kw)\<close> for a template whose replacement fields are plain keyword
  names, as those of \<open>PROMPT_TEMPLATE\<close> are: \<open>{{\<close> and \<open>}}\<close> are literal braces, \<open>{name}\<close> is
  replaced by the value of \<open>name\<close>, and the values are not scanned again.  The first
  argument is the field name read so far, \<open>None\<close> outside a field.
\<close>

definition prepend :: "pystr \<Rightarrow> error + pystr \<Rightarrow> error + pystr" where
  "prepend s r = (case r of Inl e \<Rightarrow> Inl e | Inr t \<Rightarrow> Inr (s @ t))"

fun format_from :: "pystr option \<Rightarrow> pystr \<Rightarrow> (pystr \<times> pystr) list \<Rightarrow> error + pystr" where
  "format_from None [] kw = Inr []"
| "format_from None [c] kw =
     (if c = 0x7B then Inl (ValueError (u ''Single '{' encountered in format string''))
      else if c = 0x7D then Inl (ValueError (u ''Single '}' encountered in format string''))
      else Inr [c])"
| "format_from None (c # d # ds) kw =
     (if c = 0x7B then
        (if d = 0x7B then prepend [0x7B] (format_from None ds kw)
         else format_from (Some []) (d # ds) kw)
      else if c = 0x7D then
        (if d = 0x7D then prepend [0x7D] (format_from None ds kw)
         else Inl (ValueError (u ''Single '}' encountered in format string'')))
      else prepend [c] (format_from None (d # ds) kw))"
| "format_from (Some name) [] kw =
     Inl (ValueError (u ''expected '}' before end of string''))"
| "format_from (Some name) (c # cs) kw =
     (if c = 0x7D then
        (case map_of kw name of
           None \<Rightarrow> Inl (KeyError name)
         | Some v \<Rightarrow> prepend v (format_from None cs kw))
      else format_from (Some (name @ [c])) cs kw)"

definition py_format :: "pystr \<Rightarrow> (pystr \<times> pystr) list \<Rightarrow> error + pystr" where
  "py_format template kw = format_from None template kw"

text \<open>
  \<open>sorted\<close> of a set; Python orders strings by code point, lexicographically, as the
  order on lists does here.
\<close>

definition py_sorted :: "'a::linorder set \<Rightarrow> 'a list" where
  "py_sorted S = sorted_list_of_set S"


section \<open>cat_translate/cli.py\<close>

subsection \<open>Constants\<close>

text \<open>The characters of the fourth key of \<open>LANG_CODE_MAP\<close> (U+65E5 U+672C U+8A9E).\<close>

definition nihongo :: pystr where
  "nihongo = [0x65E5, 0x672C, 0x8A9E]"

definition LANG_CODE_MAP :: "(pystr \<times> pystr) list" where
  "LANG_CODE_MAP =
    [(u ''ja'', u ''ja''),
     (u ''jp'', u ''ja''),
     (u ''japanese'', u ''ja''),
     (nihongo, u ''ja''),
     (u ''en'', u ''en''),
     (u ''eng'', u ''en''),
     (u ''english'', u ''en'')]"

definition LANG_NAME_MAP :: "(pystr \<times> pystr) list" where
  "LANG_NAME_MAP = [(u ''ja'', u ''Japanese''), (u ''en'', u ''English'')]"

definition SUPPORTED_LANGS :: "pystr set" where
  "SUPPORTED_LANGS = {u ''ja'', u ''en''}"

definition PROMPT_TEMPLATE :: pystr where
  "PROMPT_TEMPLATE =
     u ''Translate the following {src_lang} text into {tgt_lang}.'' @ [0x0A, 0x0A] @ u ''{src_text}''"

subsection \<open>Command line and collaborators\<close>

text \<open>
  A Python \<open>float\<close>: a finite value, an infinity or NaN (\<open>float("nan")\<close> is accepted by
  \<open>argparse\<close>).  Python's \<open><\<close> is false whenever NaN is involved; a float is falsy exactly
  when it is zero.
\<close>

datatype pyfloat = Fin real | PInf | NInf | NaN

fun fl_less :: "pyfloat \<Rightarrow> pyfloat \<Rightarrow> bool" where
  "fl_less NaN b = False"
| "fl_less a NaN = False"
| "fl_less a NInf = False"
| "fl_less NInf b = True"
| "fl_less PInf b = False"
| "fl_less (Fin a) PInf = True"
| "fl_less (Fin a) (Fin b) = (a < b)"

definition fl_truthy :: "pyfloat \<Rightarrow> bool" where
  "fl_truthy a = (a \<noteq> Fin 0)"

text \<open>The namespace \<open>parse_args\<close> returns.\<close>

record cli_args =
  model :: pystr
  text_opt :: "pystr option"
  input_lang :: "pystr option"
  output_lang :: "pystr option"
  max_new_tokens :: int
  temperature :: pyfloat
  top_p :: pyfloat
  top_k :: int
  trust_remote_code :: bool
  no_chat_template :: bool

text \<open>
  One guess of the language detector: a dictionary, of which the code reads the entry
  \<open>"lang"\<close> with \<open>item.get("lang")\<close> (\<open>None\<close> when the entry is absent).  The detector returns
  one such dictionary or a ranked list of them.
\<close>

record item =
  lang :: "pystr option"

datatype detection = Single item | Ranked "item list"

text \<open>
  What the resolver needs from outside the repository: the Unicode lower-casing and
  \<open>fast_langdetect.detect\<close>, called with the text and \<open>k\<close>.
\<close>

record env =
  unicode_lower :: "pystr \<Rightarrow> pystr"
  detect :: "pystr \<Rightarrow> nat \<Rightarrow> detection"

text \<open>What a run does to the outside, in order.\<close>

datatype event = DetectCall pystr nat | StderrWrite pystr

record stdin =
  isatty :: bool
  content :: pystr

subsection \<open>read_text\<close>

definition read_text :: "cli_args \<Rightarrow> stdin \<Rightarrow> error + pystr" where
  "read_text args inp =
     (case text_opt args of
        Some t \<Rightarrow> Inr t
      | None \<Rightarrow>
          if isatty inp then Inl (SystemExit (u ''Provide --text or pipe input via stdin.''))
          else let data = content inp in
            if py_strip data = [] then Inl (SystemExit (u ''No input text provided via stdin.''))
            else Inr data)"

subsection \<open>normalize_lang\<close>

definition normalize_lang :: "env \<Rightarrow> pystr option \<Rightarrow> error + pystr option" where
  "normalize_lang E tok =
     (case tok of
        None \<Rightarrow> Inr None
      | Some v \<Rightarrow>
          let key = py_lower (unicode_lower E) (py_strip v) in
          (case map_of LANG_CODE_MAP key of
             None \<Rightarrow> Inl (SystemExit
               (u ''Unsupported language '' @ [0x27] @ v @ [0x27] @ u ''. Supported: '' @
                repr_list (map repr_str (py_sorted SUPPORTED_LANGS))))
           | Some normalized \<Rightarrow> Inr (Some normalized)))"

subsection \<open>detect_lang\<close>

definition results_iter :: "detection \<Rightarrow> item list" where
  "results_iter results = (case results of Single d \<Rightarrow> [d] | Ranked ds \<Rightarrow> ds)"

text \<open>The \<open>for\<close> loop over the guesses, with the \<open>raise\<close> after it.\<close>

fun detect_loop :: "item list \<Rightarrow> error + pystr" where
  "detect_loop [] = Inl (SystemExit (u ''Could not detect language as English or Japanese.''))"
| "detect_loop (it # rest) =
     (case lang it of
        Some l \<Rightarrow> if l \<in> SUPPORTED_LANGS then Inr l else detect_loop rest
      | None \<Rightarrow> detect_loop rest)"

definition detect_lang :: "env \<Rightarrow> pystr \<Rightarrow> (error + pystr) \<times> event list" where
  "detect_lang E src_text =
     (detect_loop (results_iter (detect E src_text 3)), [DetectCall src_text 3])"

subsection \<open>resolve_languages\<close>

text \<open>The conditional expression \<open>"ja" if x == "en" else "en"\<close> of lines 132, 137 and 141.\<close>

definition other_lang :: "pystr \<Rightarrow> pystr" where
  "other_lang x = (if x = u ''en'' then u ''ja'' else u ''en'')"

definition resolve_languages ::
  "env \<Rightarrow> cli_args \<Rightarrow> pystr \<Rightarrow> (error + pystr \<times> pystr) \<times> event list" where
  "resolve_languages E args src_text =
     (case normalize_lang E (input_lang args) of
        Inl e \<Rightarrow> (Inl e, [])
      | Inr il \<Rightarrow>
     (case normalize_lang E (output_lang args) of
        Inl e \<Rightarrow> (Inl e, [])
      | Inr ol \<Rightarrow>
     (case (il, ol) of
        (None, None) \<Rightarrow>
          (case detect_lang E src_text of
             (Inl e, tr) \<Rightarrow> (Inl e, tr)
           | (Inr i, tr) \<Rightarrow>
               let out = other_lang i in
               (Inr (i, out),
                tr @ [StderrWrite (u ''[INFO] Detected '' @ i @ u '' -> '' @ out @ [0x0A])]))
      | (None, Some out) \<Rightarrow> (Inr (other_lang out, out), [])
      | (Some i, None) \<Rightarrow> (Inr (i, other_lang i), [])
      | (Some i, Some out) \<Rightarrow>
          if i \<notin> SUPPORTED_LANGS \<or> out \<notin> SUPPORTED_LANGS
          then (Inl (SystemExit (u ''Only English and Japanese are supported.'')), [])
          else if i = out
          then (Inl (SystemExit (u ''Input and output languages must be different.'')), [])
          else (Inr (i, out), []))))"

subsection \<open>The prompt (lines 197 to 201 of main)\<close>

definition build_prompt :: "pystr \<Rightarrow> pystr \<Rightarrow> pystr \<Rightarrow> error + pystr" where
  "build_prompt src tgt src_text =
     (case map_of LANG_NAME_MAP src of
        None \<Rightarrow> Inl (KeyError src)
      | Some src_name \<Rightarrow>
     (case map_of LANG_NAME_MAP tgt of
        None \<Rightarrow> Inl (KeyError tgt)
      | Some tgt_name \<Rightarrow>
          py_format PROMPT_TEMPLATE
            [(u ''src_lang'', src_name), (u ''tgt_lang'', tgt_name), (u ''src_text'', src_text)]))"

subsection \<open>run_mlx\<close>

text \<open>
  The inference library is outside the repository.  A tokenizer either has
  \<open>apply_chat_template\<close> or not; when it has, it renders one user message with
  \<open>add_generation_prompt=True, tokenize=False\<close>.  A sampler is opaque to the script: it
  is modelled by the arguments \<open>make_sampler\<close> was called with.  \<open>'m\<close> is the loaded model.
\<close>

record tokenizer =
  apply_chat_template :: "(pystr \<Rightarrow> pystr) option"

datatype sampler = Sampler pyfloat pyfloat int

record gen_kwargs =
  max_tokens :: int
  sampler_kw :: "sampler option"

record 'm mlx_lm =
  load :: "pystr \<Rightarrow> bool option \<Rightarrow> error + 'm \<times> tokenizer"
  generate :: "'m \<Rightarrow> tokenizer \<Rightarrow> pystr \<Rightarrow> gen_kwargs \<Rightarrow> error + pystr"

text \<open>
  Lines 175 to 183.  \<open>x and x > 0\<close> in a condition is true when \<open>x\<close> is truthy (not zero)
  and \<open>x > 0\<close>.
\<close>

definition make_sampler_if_needed :: "cli_args \<Rightarrow> sampler option" where
  "make_sampler_if_needed args =
     (if (fl_truthy (temperature args) \<and> fl_less (Fin 0) (temperature args)) \<or>
         (fl_truthy (top_p args) \<and> fl_less (top_p args) (Fin 1)) \<or>
         (top_k args \<noteq> 0 \<and> top_k args > 0)
      then Some (Sampler (temperature args) (top_p args) (top_k args))
      else None)"

definition run_mlx :: "'m mlx_lm \<Rightarrow> pystr \<Rightarrow> cli_args \<Rightarrow> error + pystr" where
  "run_mlx L prompt args =
     (case load L (model args) (if trust_remote_code args then Some True else None) of
        Inl e \<Rightarrow> Inl e
      | Inr (m, tok) \<Rightarrow>
          let prompt_text =
                (case apply_chat_template tok of
                   Some render \<Rightarrow> if \<not> no_chat_template args then render prompt else prompt
                 | None \<Rightarrow> prompt);
              smp = make_sampler_if_needed args
          in generate L m tok prompt_text \<lparr>max_tokens = max_new_tokens args, sampler_kw = smp\<rparr>)"

subsection \<open>main\<close>

text \<open>The result is what the run prints on standard output, with the events of the run.\<close>

definition cli_main ::
  "env \<Rightarrow> 'm mlx_lm \<Rightarrow> cli_args \<Rightarrow> stdin \<Rightarrow> (error + pystr) \<times> event list" where
  "cli_main E L args inp =
     (case read_text args inp of
        Inl e \<Rightarrow> (Inl e, [])
      | Inr src_text \<Rightarrow>
     (case resolve_languages E args src_text of
        (Inl e, tr) \<Rightarrow> (Inl e, tr)
      | (Inr (i, out), tr) \<Rightarrow>
     (case build_prompt i out src_text of
        Inl e \<Rightarrow> (Inl e, tr)
      | Inr prompt \<Rightarrow>
     (case run_mlx L prompt args of
        Inl e \<Rightarrow> (Inl e, tr)
      | Inr translation \<Rightarrow> (Inr (translation @ [0x0A]), tr)))))"


section \<open>scripts/to_mlx.py\<close>

subsection \<open>Paths and the file system\<close>

text \<open>\<open>s.split(sep)\<close> for a separator of one character.\<close>

definition split_on :: "nat \<Rightarrow> pystr \<Rightarrow> pystr list" where
  "split_on sep s =
     foldr (\<lambda>c acc. if c = sep then [] # acc else (c # hd acc) # tl acc) s [[]]"

text \<open>
  A \<open>pathlib\<close> path on POSIX: the anchor (\<open>""\<close>, \<open>"/"\<close> or \<open>"//"\<close>) and the names after it.
  Parsing a string drops empty names and \<open>"."\<close>; two leading slashes, and only two, are
  kept as the anchor \<open>"//"\<close>.
\<close>

record path =
  anchor :: pystr
  segments :: "pystr list"

definition path_of :: "pystr \<Rightarrow> path" where
  "path_of s =
     \<lparr>anchor = (if take 2 s = u ''//'' \<and> take 3 s \<noteq> u ''///'' then u ''//''
                else if take 1 s = u ''/'' then u ''/'' else []),
      segments = filter (\<lambda>n. n \<noteq> [] \<and> n \<noteq> u ''.'') (split_on 0x2F s)\<rparr>"

text \<open>\<open>p / s\<close>: an absolute right operand replaces the left one.\<close>

definition truediv :: "path \<Rightarrow> pystr \<Rightarrow> path" where
  "truediv p s =
     (let q = path_of s in
      if anchor q \<noteq> [] then q else p\<lparr>segments := segments p @ segments q\<rparr>)"

definition path_str :: "path \<Rightarrow> pystr" where
  "path_str p =
     (if anchor p = [] \<and> segments p = [] then u ''.''
      else anchor p @ py_join (u ''/'') (segments p))"

definition parent :: "path \<Rightarrow> path" where
  "parent p = p\<lparr>segments := butlast (segments p)\<rparr>"

text \<open>
  The file system.  Its entries (files and directories) are kept under their physical
  names, the list of names from the root; the working directory is such a list too.
  The root, the working directory and the directories above it always exist.  There
  are no symbolic links.
\<close>

datatype kind = File | Dir

datatype errno = ENOENT | ENOTDIR

record fs =
  entries :: "pystr list \<Rightarrow> kind option"
  cwd :: "pystr list"

definition kind_at :: "fs \<Rightarrow> pystr list \<Rightarrow> kind option" where
  "kind_at F names =
     (if take (length names) (cwd F) = names then Some Dir else entries F names)"

text \<open>
  How the operating system walks a path, name by name, from the directory \<open>cur\<close>: each
  name is looked up in a directory that must exist (\<open>ENOENT\<close> otherwise) and be a directory
  (\<open>ENOTDIR\<close> otherwise); \<open>..\<close> goes to the directory above, and stays at the root.  The
  result is the physical name the path stands for, whose last name need not exist.
\<close>

fun resolve :: "fs \<Rightarrow> pystr list \<Rightarrow> pystr list \<Rightarrow> errno + pystr list" where
  "resolve F cur [] = Inr cur"
| "resolve F cur (n # ns) =
     (case kind_at F cur of
        None \<Rightarrow> Inl ENOENT
      | Some File \<Rightarrow> Inl ENOTDIR
      | Some Dir \<Rightarrow> resolve F (if n = u ''..'' then butlast cur else cur @ [n]) ns)"

definition start_dir :: "fs \<Rightarrow> path \<Rightarrow> pystr list" where
  "start_dir F p = (if anchor p = [] then cwd F else [])"

text \<open>\<open>os.stat\<close>.\<close>

definition stat :: "fs \<Rightarrow> path \<Rightarrow> errno + kind" where
  "stat F p =
     (case resolve F (start_dir F p) (segments p) of
        Inl e \<Rightarrow> Inl e
      | Inr names \<Rightarrow>
          (case kind_at F names of None \<Rightarrow> Inl ENOENT | Some k \<Rightarrow> Inr k))"

definition lookup :: "fs \<Rightarrow> path \<Rightarrow> kind option" where
  "lookup F p = (case stat F p of Inl e \<Rightarrow> None | Inr k \<Rightarrow> Some k)"

text \<open>\<open>Path.exists\<close> and \<open>Path.is_dir\<close>: false when \<open>stat\<close> fails.\<close>

definition path_exists :: "fs \<Rightarrow> path \<Rightarrow> bool" where
  "path_exists F p = (lookup F p \<noteq> None)"

definition is_dir :: "fs \<Rightarrow> path \<Rightarrow> bool" where
  "is_dir F p = (lookup F p = Some Dir)"

text \<open>\<open>os.mkdir\<close>.\<close>

definition os_mkdir :: "fs \<Rightarrow> path \<Rightarrow> error + fs" where
  "os_mkdir F p =
     (case resolve F (start_dir F p) (segments p) of
        Inl ENOENT \<Rightarrow> Inl (FileNotFoundError (path_str p))
      | Inl ENOTDIR \<Rightarrow> Inl (NotADirectoryError (path_str p))
      | Inr names \<Rightarrow>
          (case kind_at F names of
             Some k \<Rightarrow> Inl (FileExistsError (path_str p))
           | None \<Rightarrow> Inr (F\<lparr>entries := (entries F)(names \<mapsto> Dir)\<rparr>)))"

text \<open>\<open>Path.mkdir(parents=False, exist_ok=True)\<close>, as \<open>pathlib\<close> writes it.\<close>

definition mkdir_exist_ok :: "fs \<Rightarrow> path \<Rightarrow> error + fs" where
  "mkdir_exist_ok F p =
     (case os_mkdir F p of
        Inr F' \<Rightarrow> Inr F'
      | Inl e \<Rightarrow>
          (case e of
             FileNotFoundError x \<Rightarrow> Inl e
           | _ \<Rightarrow> if is_dir F p then Inr F else Inl e))"

text \<open>\<open>Path.mkdir(parents=True, exist_ok=True)\<close>, as \<open>pathlib\<close> writes it.\<close>

function mkdir_parents :: "fs \<Rightarrow> path \<Rightarrow> error + fs" where
  "mkdir_parents F p =
     (case os_mkdir F p of
        Inr F' \<Rightarrow> Inr F'
      | Inl e \<Rightarrow>
          (case e of
             FileNotFoundError x \<Rightarrow>
               if parent p = p then Inl e
               else (case mkdir_parents F (parent p) of
                       Inl e' \<Rightarrow> Inl e'
                     | Inr F' \<Rightarrow> mkdir_exist_ok F' p)
           | _ \<Rightarrow> if is_dir F p then Inr F else Inl e))"
  by pat_completeness auto
termination
proof (relation "measure (\<lambda>(F, p). length (segments p))")
  show "wf (measure (\<lambda>(F, p). length (segments p)))" by simp
next
  fix F :: fs and p :: path and e x
  assume "parent p \<noteq> p"
  then have "segments p \<noteq> []" by (auto simp: parent_def)
  then show "((F, parent p), (F, p)) \<in> measure (\<lambda>(F, p). length (segments p))"
    by (simp add: parent_def)
qed

declare mkdir_parents.simps [simp del]

subsection \<open>Constants and command line\<close>

definition DEFAULT_MODELS :: "pystr list" where
  "DEFAULT_MODELS = [u ''cyberagent/CAT-Translate-1.4b'', u ''cyberagent/CAT-Translate-0.8b'']"

definition DEFAULT_QBITS :: "int list" where
  "DEFAULT_QBITS = [8, 4]"

definition SUPPORTED_QBITS :: "int set" where
  "SUPPORTED_QBITS = {4, 8}"

record conv_args =
  models :: "pystr list option"
  qbits :: "int list"
  output_dir :: path
  q_group_size :: "int option"
  dtype :: "pystr option"
  conv_trust_remote_code :: bool

text \<open>
  What the driver needs from outside: \<open>sys.executable\<close>, and the process that
  \<open>subprocess.run\<close> starts, which may change the entries of the file system and ends
  with an exit status.
\<close>

record conv_env =
  executable :: pystr
  run_process :: "pystr list \<Rightarrow> fs \<Rightarrow> int \<times> (pystr list \<Rightarrow> kind option)"

text \<open>The world the driver acts on: files, lines printed, commands started (in order).\<close>

record world =
  files :: fs
  printed :: "pystr list"
  started :: "pystr list list"

subsection \<open>build_command\<close>

definition build_command ::
  "conv_env \<Rightarrow> pystr \<Rightarrow> path \<Rightarrow> int \<Rightarrow> int option \<Rightarrow> pystr option \<Rightarrow> bool \<Rightarrow> pystr list" where
  "build_command E mdl out_dir qb group_size dt trust =
     [executable E, u ''-m'', u ''mlx_lm'', u ''convert'', u ''--hf-path'', mdl,
      u ''--mlx-path'', path_str out_dir, u ''-q'', u ''--q-bits'', py_str_int qb]
     @ (case group_size of Some g \<Rightarrow> [u ''--q-group-size'', py_str_int g] | None \<Rightarrow> [])
     @ (case dt of Some d \<Rightarrow> [u ''--dtype'', d] | None \<Rightarrow> [])
     @ (if trust then [u ''--trust-remote-code''] else [])"

subsection \<open>main\<close>

text \<open>\<open>shlex.quote\<close>.\<close>

definition shlex_safe :: "nat \<Rightarrow> bool" where
  "shlex_safe c \<longleftrightarrow>
     (0x30 \<le> c \<and> c \<le> 0x39) \<or> (0x41 \<le> c \<and> c \<le> 0x5A) \<or> (0x61 \<le> c \<and> c \<le> 0x7A) \<or>
     c = 0x5F \<or> c \<in> set (u ''@%+=:,./-'')"

definition shlex_quote :: "pystr \<Rightarrow> pystr" where
  "shlex_quote s =
     (if s = [] then [0x27, 0x27]
      else if list_all shlex_safe s then s
      else [0x27] @ concat (map (\<lambda>c. if c = 0x27 then [0x27, 0x22, 0x27, 0x22, 0x27] else [c]) s)
           @ [0x27])"

definition out_dir_of :: "conv_args \<Rightarrow> pystr \<Rightarrow> int \<Rightarrow> path" where
  "out_dir_of args mdl qb = truediv (truediv (output_dir args) mdl) (u ''q'' @ py_str_int qb)"

text \<open>The body of the inner loop (lines 104 to 120).\<close>

definition convert_one ::
  "conv_env \<Rightarrow> conv_args \<Rightarrow> pystr \<Rightarrow> int \<Rightarrow> world \<Rightarrow> (error + unit) \<times> world" where
  "convert_one E args mdl qb w =
     (let out_dir = out_dir_of args mdl qb in
      case mkdir_parents (files w) (parent out_dir) of
        Inl e \<Rightarrow> (Inl e, w)
      | Inr F \<Rightarrow>
          let w1 = w\<lparr>files := F\<rparr> in
          if path_exists F out_dir then
            (Inl (SystemExit
               (u ''Output path already exists: '' @ path_str out_dir @ u ''. '' @
                u ''Please delete/move it or choose another output directory.'')), w1)
          else
            let cmd = build_command E mdl out_dir qb (q_group_size args) (dtype args)
                        (conv_trust_remote_code args);
                w2 = w1\<lparr>printed := printed w1 @
                        [u ''Running: '' @ py_join (u '' '') (map shlex_quote cmd)]\<rparr>;
                (rc, ents) = run_process E cmd (files w2);
                w3 = w2\<lparr>files := (files w2)\<lparr>entries := ents\<rparr>, started := started w2 @ [cmd]\<rparr>
            in if rc \<noteq> 0 then (Inl (CalledProcessError rc cmd), w3) else (Inr (), w3))"

text \<open>The inner loop, over the bit-widths, for one model.\<close>

fun qbits_loop ::
  "conv_env \<Rightarrow> conv_args \<Rightarrow> pystr \<Rightarrow> int list \<Rightarrow> world \<Rightarrow> (error + unit) \<times> world" where
  "qbits_loop E args mdl [] w = (Inr (), w)"
| "qbits_loop E args mdl (qb # rest) w =
     (case convert_one E args mdl qb w of
        (Inl e, w') \<Rightarrow> (Inl e, w')
      | (Inr _, w') \<Rightarrow> qbits_loop E args mdl rest w')"

text \<open>The outer loop, over the models.\<close>

fun models_loop ::
  "conv_env \<Rightarrow> conv_args \<Rightarrow> pystr list \<Rightarrow> world \<Rightarrow> (error + unit) \<times> world" where
  "models_loop E args [] w = (Inr (), w)"
| "models_loop E args (mdl # rest) w =
     (case qbits_loop E args mdl (qbits args) w of
        (Inl e, w') \<Rightarrow> (Inl e, w')
      | (Inr _, w') \<Rightarrow> models_loop E args rest w')"

text \<open>\<open>args.models or DEFAULT_MODELS\<close>: an absent or empty list gives the default.\<close>

definition models_or_default :: "conv_args \<Rightarrow> pystr list" where
  "models_or_default args =
     (case models args of None \<Rightarrow> DEFAULT_MODELS | Some [] \<Rightarrow> DEFAULT_MODELS | Some ms \<Rightarrow> ms)"

definition to_mlx_main :: "conv_env \<Rightarrow> conv_args \<Rightarrow> world \<Rightarrow> (error + int) \<times> world" where
  "to_mlx_main E args w =
     (let mdls = models_or_default args;
          qbits_list = qbits args;
          invalid_qbits = filter (\<lambda>q. q \<notin> SUPPORTED_QBITS) qbits_list
      in if invalid_qbits \<noteq> [] then
           (Inl (SystemExit
              (u ''Unsupported qbits: '' @ repr_list (map py_str_int invalid_qbits) @
               u ''. Supported values: '' @
               repr_list (map py_str_int (py_sorted SUPPORTED_QBITS)))), w)
         else
           (case models_loop E args mdls w of
              (Inl e, w') \<Rightarrow> (Inl e, w')
            | (Inr _, w') \<Rightarrow> (Inr 0, w')))"

section \<open>Inputs used in the examples\<close>

text \<open>The namespace \<open>parse_args\<close> of \<open>cli.py\<close> returns when no flag is given.\<close>

definition default_cli_args :: cli_args where
  "default_cli_args =
     \<lparr>model = u ''output/mlx/cyberagent/CAT-Translate-0.8b/q4'', text_opt = None,
      input_lang = None, output_lang = None, max_new_tokens = 512, temperature = Fin 0,
      top_p = Fin 1, top_k = 0, trust_remote_code = False, no_chat_template = False\<rparr>"

text \<open>
  A detector that ranks the given codes for every text and returns the first \<open>k\<close> of
  them; the Unicode lower-casing is the identity, as it is on the strings of the examples.
\<close>

definition guesses :: "pystr list \<Rightarrow> detection" where
  "guesses codes = Ranked (map (\<lambda>c. \<lparr>lang = Some c\<rparr>) codes)"

definition env_guessing :: "pystr list \<Rightarrow> env" where
  "env_guessing codes = \<lparr>unicode_lower = (\<lambda>s. s), detect = (\<lambda>t k. guesses (take k codes))\<rparr>"


text \<open>The namespace \<open>parse_args\<close> of \<open>to_mlx.py\<close> returns when no flag is given.\<close>

definition default_conv_args :: conv_args where
  "default_conv_args =
     \<lparr>models = None, qbits = DEFAULT_QBITS, output_dir = path_of (u ''output/mlx''),
      q_group_size = None, dtype = None, conv_trust_remote_code = False\<rparr>"

text \<open>
  A converter that makes the directory named after \<open>--mlx-path\<close> (the eighth word of the
  command) and exits with status 0 (with status 1 when it cannot make it), and a world
  with no entry, nothing printed and no command started, run from the directory
  \<open>/work\<close>.
\<close>

definition conv_env_ok :: conv_env where
  "conv_env_ok =
     \<lparr>executable = u ''python3'',
      run_process =
        (\<lambda>cmd F. case drop 7 cmd of
                    [] \<Rightarrow> (2, entries F)
                  | d # _ \<Rightarrow>
                      (case os_mkdir F (path_of d) of
                         Inl e \<Rightarrow> (1, entries F)
                       | Inr F' \<Rightarrow> (0, entries F')))\<rparr>"

definition empty_world :: world where
  "empty_world =
     \<lparr>files = \<lparr>entries = Map.empty, cwd = [u ''work'']\<rparr>, printed = [], started = []\<rparr>"

text \<open>
  A world, run from \<open>/work\<close>, whose only entries are the given directories (relative
  paths without \<open>..\<close>).
\<close>

definition world_with_dirs :: "pystr list \<Rightarrow> world" where
  "world_with_dirs ds =
     \<lparr>files =
        \<lparr>entries = (\<lambda>names. if names \<in> set (map (\<lambda>d. u ''work'' # segments (path_of d)) ds)
                             then Some Dir else None),
         cwd = [u ''work'']\<rparr>,
      printed = [], started = []\<rparr>"

text \<open>The command line \<open>--model m1 --model m2 --qbits 8 --output-dir out\<close>.\<close>

definition two_models_q8 :: conv_args where
  "two_models_q8 =
     default_conv_args\<lparr>models := Some [u ''m1'', u ''m2''], qbits := [8],
                       output_dir := path_of (u ''out'')\<rparr>"


section \<open>The schedule of the conversion driver, as the specification words it\<close>

text \<open>
  One job per (model, bit-width) combination, taken from a list in order; a job that
  fails ends the run.  The command of a job names the output path
  \<open>output-dir / model / q<bits>\<close>.
\<close>

fun run_jobs ::
  "conv_env \<Rightarrow> conv_args \<Rightarrow> (pystr \<times> int) list \<Rightarrow> world \<Rightarrow> (error + unit) \<times> world" where
  "run_jobs E args [] w = (Inr (), w)"
| "run_jobs E args ((mdl, qb) # rest) w =
     (case convert_one E args mdl qb w of
        (Inl e, w') \<Rightarrow> (Inl e, w')
      | (Inr _, w') \<Rightarrow> run_jobs E args rest w')"



section \<open>Properties of the string operations\<close>

lemma u_eq_iff [simp]: "(u a = u b) = (a = b)"
  unfolding u_def by (simp add: inj_map_eq_map inj_on_def)

lemma sorted_SUPPORTED: "py_sorted SUPPORTED_LANGS = [u ''en'', u ''ja'']"
proof -
  have "py_sorted SUPPORTED_LANGS = sorted_list_of_set (set [u ''ja'', u ''en''])"
    by (simp add: py_sorted_def SUPPORTED_LANGS_def)
  also have "\<dots> = sort (remdups [u ''ja'', u ''en''])"
    by (rule sorted_list_of_set_sort_remdups)
  also have "\<dots> = [u ''en'', u ''ja'']" by (simp add: u_def)
  finally show ?thesis .
qed

lemma supported_msg:
  "repr_list (map repr_str (py_sorted SUPPORTED_LANGS)) = u ''['en', 'ja']''"
  by (simp add: sorted_SUPPORTED repr_list_def repr_str_def u_def)

lemma map_of_LANG_CODE_MAP:
  "map_of LANG_CODE_MAP k =
     (if k \<in> {u ''ja'', u ''jp'', u ''japanese'', nihongo} then Some (u ''ja'')
      else if k \<in> {u ''en'', u ''eng'', u ''english''} then Some (u ''en'') else None)"
  by (simp add: LANG_CODE_MAP_def)

lemma dropWhile_all_iff: "(\<forall>x \<in> set (dropWhile P s). P x) \<longleftrightarrow> (\<forall>x \<in> set s. P x)"
proof
  assume h: "\<forall>x \<in> set (dropWhile P s). P x"
  show "\<forall>x \<in> set s. P x"
  proof (cases "dropWhile P s")
    case Nil then show ?thesis by (simp add: dropWhile_eq_Nil_conv)
  next
    case (Cons a as)
    then have "\<not> P a" using hd_dropWhile [of P s] by simp
    with Cons h show ?thesis by auto
  qed
next
  assume "\<forall>x \<in> set s. P x"
  then show "\<forall>x \<in> set (dropWhile P s). P x" by (auto dest: set_dropWhileD)
qed

lemma py_strip_empty_iff: "py_strip s = [] \<longleftrightarrow> list_all py_isspace s"
  by (simp add: py_strip_def dropWhile_all_iff list_all_iff)

lemma py_strip_pad:
  assumes a: "list_all py_isspace a" and b: "list_all py_isspace b"
  shows "py_strip (a @ s @ b) = py_strip s"
proof -
  have 1: "dropWhile py_isspace (a @ s @ b) = dropWhile py_isspace (s @ b)"
    using a by (simp add: dropWhile_append2 list_all_iff)
  show ?thesis
  proof (cases "list_all py_isspace s")
    case True
    then have "list_all py_isspace (a @ s @ b)" using a b by simp
    then show ?thesis using True by (simp only: py_strip_empty_iff [symmetric])
  next
    case False
    then obtain x where x: "x \<in> set s" "\<not> py_isspace x" by (auto simp: list_all_iff)
    then have 2: "dropWhile py_isspace (s @ b) = dropWhile py_isspace s @ b"
      by (simp add: dropWhile_append1)
    have "dropWhile py_isspace (rev b @ rev (dropWhile py_isspace s)) =
          dropWhile py_isspace (rev (dropWhile py_isspace s))"
      by (rule dropWhile_append2) (use b in \<open>auto simp: list_all_iff\<close>)
    then show ?thesis by (simp add: py_strip_def 1 2)
  qed
qed

lemma isspace_ascii_lower: "py_isspace (ascii_lower c) = py_isspace c"
  by (auto simp: py_isspace_def ascii_lower_def)

lemma py_strip_map_lower: "py_strip (map ascii_lower s) = map ascii_lower (py_strip s)"
proof -
  have c: "py_isspace \<circ> ascii_lower = py_isspace" by (rule ext) (simp add: isspace_ascii_lower)
  show ?thesis
    by (simp add: py_strip_def dropWhile_map rev_map c)
qed

section \<open>Properties of cat_translate/cli.py\<close>

subsection \<open>normalize_lang\<close>

lemma normalize_lang_Some:
  "normalize_lang E (Some v) =
    (let key = py_lower (unicode_lower E) (py_strip v) in
     if key \<in> {u ''ja'', u ''jp'', u ''japanese'', nihongo} then Inr (Some (u ''ja''))
     else if key \<in> {u ''en'', u ''eng'', u ''english''} then Inr (Some (u ''en''))
     else Inl (SystemExit (u ''Unsupported language '' @ [0x27] @ v @ [0x27] @ u ''. Supported: ['en', 'ja']'')))"
  by (simp add: normalize_lang_def map_of_LANG_CODE_MAP supported_msg Let_def u_def)

lemma lower_strip_padded:
  assumes "list_all py_isspace a" "list_all py_isspace b" "is_ascii v"
  shows "py_lower f (py_strip (a @ v @ b)) = py_strip (map ascii_lower v)"
proof -
  have "is_ascii (py_strip v)"
    using assms(3) unfolding is_ascii_def py_strip_def list_all_iff
    by (auto dest!: set_dropWhileD)
  then show ?thesis using assms by (simp add: py_strip_pad py_lower_def py_strip_map_lower)
qed

lemmas str_eval = u_def py_strip_def py_isspace_def py_lower_def is_ascii_def ascii_lower_def nihongo_def

lemmas ex_eval = default_cli_args_def env_guessing_def guesses_def results_iter_def
  List.map_filter_simps SUPPORTED_LANGS_def other_lang_def

text \<open>
  Claim C5.  Normalisation looks the token up after trimming and lower-casing it: when
  the trimmed, lower-cased token is one of \<open>ja\<close>, \<open>jp\<close>, \<open>japanese\<close>, \<open>nihongo\<close> the result is
  \<open>ja\<close>; when it is one of \<open>en\<close>, \<open>eng\<close>, \<open>english\<close> the result is \<open>en\<close>; any other token
  makes it fail with a message that names the token as it was given and lists the
  supported codes as \<open>['en', 'ja']\<close>.
\<close>

theorem normalize_lang_synonyms:
  "let key = py_lower (unicode_lower E) (py_strip v) in
     (key \<in> {u ''ja'', u ''jp'', u ''japanese'', nihongo} \<longrightarrow>
        normalize_lang E (Some v) = Inr (Some (u ''ja''))) \<and>
     (key \<in> {u ''en'', u ''eng'', u ''english''} \<longrightarrow>
        normalize_lang E (Some v) = Inr (Some (u ''en''))) \<and>
     (key \<notin> {u ''ja'', u ''jp'', u ''japanese'', nihongo, u ''en'', u ''eng'', u ''english''} \<longrightarrow>
        normalize_lang E (Some v) =
          Inl (SystemExit (u ''Unsupported language '' @ [0x27] @ v @ [0x27] @
                           u ''. Supported: ['en', 'ja']'')))"
  by (simp add: normalize_lang_Some Let_def nihongo_def u_def)

theorem normalize_lang_synonyms_witness:
  "normalize_lang (env_guessing []) (Some (u ''  JaPaNeSe '' @ [0x0A])) = Inr (Some (u ''ja'')) \<and>
   normalize_lang (env_guessing []) (Some ([0x3000] @ nihongo)) = Inr (Some (u ''ja'')) \<and>
   normalize_lang (env_guessing []) (Some (u '' ENG'')) = Inr (Some (u ''en'')) \<and>
   normalize_lang (env_guessing []) (Some (u ''fr'')) =
     Inl (SystemExit (u ''Unsupported language 'fr'. Supported: ['en', 'ja']''))"
  using normalize_lang_synonyms [of "env_guessing []" "u ''  JaPaNeSe '' @ [0x0A]"]
        normalize_lang_synonyms [of "env_guessing []" "[0x3000] @ nihongo"]
        normalize_lang_synonyms [of "env_guessing []" "u '' ENG''"]
        normalize_lang_synonyms [of "env_guessing []" "u ''fr''"]
  by (simp add: Let_def env_guessing_def str_eval)

text \<open>
  The same for the ASCII synonyms, spelled out: any mix of upper and lower case, with any
  whitespace around it, gives the canonical code.
\<close>

lemma normalize_lang_ascii_padded:
  assumes "list_all py_isspace a" "list_all py_isspace b" "is_ascii v"
    and "map ascii_lower v = k"
    and "k \<in> {u ''ja'', u ''jp'', u ''japanese'', u ''en'', u ''eng'', u ''english''}"
  shows "normalize_lang E (Some (a @ v @ b)) =
           Inr (Some (if k \<in> {u ''ja'', u ''jp'', u ''japanese''} then u ''ja'' else u ''en''))"
proof -
  have "py_strip k = k" using assms(5) by (auto simp: str_eval)
  then have "py_lower (unicode_lower E) (py_strip (a @ v @ b)) = k"
    using assms by (simp add: lower_strip_padded)
  then show ?thesis using assms(5)
    by (auto simp add: normalize_lang_Some Let_def nihongo_def u_def)
qed

subsection \<open>read_text\<close>

text \<open>
  Claim C10.  A value given with \<open>--text\<close> is returned as it is, empty or blank included,
  whatever standard input is; text read from standard input (no \<open>--text\<close>, not a
  terminal) is refused exactly when every character of it is whitespace, which includes
  the empty text.
\<close>

theorem read_text_stdin_only:
  "(text_opt args = Some t \<longrightarrow> read_text args inp = Inr t) \<and>
   (text_opt args = None \<and> \<not> isatty inp \<longrightarrow>
      read_text args inp =
        (if list_all py_isspace (content inp)
         then Inl (SystemExit (u ''No input text provided via stdin.''))
         else Inr (content inp)))"
  by (simp add: read_text_def py_strip_empty_iff Let_def)

theorem read_text_stdin_only_witness:
  "read_text (default_cli_args\<lparr>text_opt := Some []\<rparr>) \<lparr>isatty = True, content = []\<rparr> = Inr [] \<and>
   read_text (default_cli_args\<lparr>text_opt := Some (u ''  '')\<rparr>) \<lparr>isatty = False, content = u ''x''\<rparr>
     = Inr (u ''  '') \<and>
   read_text default_cli_args \<lparr>isatty = False, content = []\<rparr>
     = Inl (SystemExit (u ''No input text provided via stdin.'')) \<and>
   read_text default_cli_args \<lparr>isatty = False, content = u '' '' @ [0x09, 0x0A]\<rparr>
     = Inl (SystemExit (u ''No input text provided via stdin.'')) \<and>
   read_text default_cli_args \<lparr>isatty = False, content = u '' Hello'' @ [0x0A]\<rparr>
     = Inr (u '' Hello'' @ [0x0A])"
  using read_text_stdin_only [of "default_cli_args\<lparr>text_opt := Some []\<rparr>" "[]" "\<lparr>isatty = True, content = []\<rparr>"]
        read_text_stdin_only [of "default_cli_args\<lparr>text_opt := Some (u ''  '')\<rparr>" "u ''  ''"
            "\<lparr>isatty = False, content = u ''x''\<rparr>"]
        read_text_stdin_only [of default_cli_args "[]" "\<lparr>isatty = False, content = []\<rparr>"]
        read_text_stdin_only [of default_cli_args "[]" "\<lparr>isatty = False, content = u '' '' @ [0x09, 0x0A]\<rparr>"]
        read_text_stdin_only [of default_cli_args "[]" "\<lparr>isatty = False, content = u '' Hello'' @ [0x0A]\<rparr>"]
  by (simp add: default_cli_args_def py_isspace_def u_def)

subsection \<open>resolve_languages\<close>

lemma normalize_lang_supported:
  assumes "normalize_lang E tok = Inr (Some c)"
  shows "c \<in> SUPPORTED_LANGS"
proof (cases tok)
  case None
  then show ?thesis using assms by (simp add: normalize_lang_def)
next
  case (Some v)
  then show ?thesis using assms
    by (auto simp: normalize_lang_Some Let_def SUPPORTED_LANGS_def split: if_splits)
qed

lemma detect_loop_find:
  "detect_loop its =
     (case find (\<lambda>l. l \<in> SUPPORTED_LANGS) (List.map_filter lang its) of
        None \<Rightarrow> Inl (SystemExit (u ''Could not detect language as English or Japanese.''))
      | Some l \<Rightarrow> Inr l)"
  by (induction its) (auto simp: List.map_filter_simps split: option.splits)

lemma detect_loop_supported: "detect_loop its = Inr l \<Longrightarrow> l \<in> SUPPORTED_LANGS"
  by (induction its) (auto split: option.splits if_splits)

lemma other_lang_supported:
  "x \<in> SUPPORTED_LANGS \<Longrightarrow> other_lang x \<in> SUPPORTED_LANGS \<and> other_lang x \<noteq> x"
  by (auto simp: other_lang_def SUPPORTED_LANGS_def)

text \<open>
  Claim C1.  Whenever the resolver returns a pair, by whichever branch, the two codes
  differ and both are supported codes; and when both sides are declared and normalise
  to the same code, it fails instead of returning.
\<close>

theorem resolve_languages_pair_valid:
  "(resolve_languages E args t = (Inr (s, d), tr) \<longrightarrow>
      s \<noteq> d \<and> s \<in> SUPPORTED_LANGS \<and> d \<in> SUPPORTED_LANGS) \<and>
   (normalize_lang E (input_lang args) = Inr (Some c) \<and>
    normalize_lang E (output_lang args) = Inr (Some c) \<longrightarrow>
      resolve_languages E args t =
        (Inl (SystemExit (u ''Input and output languages must be different.'')), []))"
proof (rule conjI; rule impI)
  assume r: "resolve_languages E args t = (Inr (s, d), tr)"
  show "s \<noteq> d \<and> s \<in> SUPPORTED_LANGS \<and> d \<in> SUPPORTED_LANGS"
  proof (cases "normalize_lang E (input_lang args)")
    case (Inl e) with r show ?thesis by (simp add: resolve_languages_def)
  next
    case il: (Inr il)
    show ?thesis
    proof (cases "normalize_lang E (output_lang args)")
      case (Inl e) with r il show ?thesis by (simp add: resolve_languages_def)
    next
      case ol: (Inr ol)
      show ?thesis
      proof (cases il)
        case None
        show ?thesis
        proof (cases ol)
          case n2: None
          with r il ol None obtain i where "detect_loop (results_iter (detect E t 3)) = Inr i"
              "s = i" "d = other_lang i"
            by (auto simp: resolve_languages_def detect_lang_def Let_def split: sum.splits)
          then show ?thesis using detect_loop_supported other_lang_supported by metis
        next
          case (Some out)
          with r il ol None have "d = out" "s = other_lang out"
            by (auto simp: resolve_languages_def)
          moreover have "out \<in> SUPPORTED_LANGS" using ol Some normalize_lang_supported by blast
          ultimately show ?thesis using other_lang_supported by metis
        qed
      next
        case (Some i)
        have i: "i \<in> SUPPORTED_LANGS" using il Some normalize_lang_supported by blast
        show ?thesis
        proof (cases ol)
          case None
          with r il ol Some have "s = i" "d = other_lang i" by (auto simp: resolve_languages_def)
          then show ?thesis using i other_lang_supported by metis
        next
          case s2: (Some out)
          with r il ol Some show ?thesis
            by (auto simp: resolve_languages_def split: if_splits)
        qed
      qed
    qed
  qed
next
  assume h: "normalize_lang E (input_lang args) = Inr (Some c) \<and>
    normalize_lang E (output_lang args) = Inr (Some c)"
  then have "c \<in> SUPPORTED_LANGS" using normalize_lang_supported by blast
  with h show "resolve_languages E args t =
        (Inl (SystemExit (u ''Input and output languages must be different.'')), [])"
    by (simp add: resolve_languages_def)
qed

theorem resolve_languages_pair_valid_witness:
  "resolve_languages (env_guessing []) (default_cli_args\<lparr>input_lang := Some (u ''English'')\<rparr>) (u ''Hello'')
     = (Inr (u ''en'', u ''ja''), []) \<and>
   u ''en'' \<noteq> u ''ja'' \<and> u ''en'' \<in> SUPPORTED_LANGS \<and> u ''ja'' \<in> SUPPORTED_LANGS \<and>
   normalize_lang (env_guessing []) (Some (u ''en'')) = Inr (Some (u ''en'')) \<and>
   normalize_lang (env_guessing []) (Some (u ''ENG'')) = Inr (Some (u ''en'')) \<and>
   resolve_languages (env_guessing [])
      (default_cli_args\<lparr>input_lang := Some (u ''en''), output_lang := Some (u ''ENG'')\<rparr>) (u ''Hello'')
     = (Inl (SystemExit (u ''Input and output languages must be different.'')), [])"
proof -
  have n1: "normalize_lang (env_guessing []) (Some (u ''English'')) = Inr (Some (u ''en''))"
    by (simp add: normalize_lang_Some Let_def ex_eval str_eval)
  have n2: "normalize_lang (env_guessing []) (Some (u ''en'')) = Inr (Some (u ''en''))"
    by (simp add: normalize_lang_Some Let_def ex_eval str_eval)
  have n3: "normalize_lang (env_guessing []) (Some (u ''ENG'')) = Inr (Some (u ''en''))"
    by (simp add: normalize_lang_Some Let_def ex_eval str_eval)
  have r: "resolve_languages (env_guessing []) (default_cli_args\<lparr>input_lang := Some (u ''English'')\<rparr>)
      (u ''Hello'') = (Inr (u ''en'', u ''ja''), [])"
    by (simp add: resolve_languages_def n1 normalize_lang_def [of _ None] default_cli_args_def other_lang_def)
  show ?thesis
    using r n2 n3
      resolve_languages_pair_valid [where E = "env_guessing []"
        and args = "default_cli_args\<lparr>input_lang := Some (u ''English'')\<rparr>" and t = "u ''Hello''"
        and s = "u ''en''" and d = "u ''ja''" and tr = "[]" and c = "u ''zz''"]
      resolve_languages_pair_valid [where E = "env_guessing []"
        and args = "default_cli_args\<lparr>input_lang := Some (u ''en''), output_lang := Some (u ''ENG'')\<rparr>"
        and t = "u ''Hello''" and c = "u ''en''" and s = "[]" and d = "[]" and tr = "[]"]
    by simp
qed

text \<open>
  Claim C2.  With neither side declared, the resolver asks the detector for three
  guesses, takes the first guess, in rank order, whose code is a supported code as the
  source and the other code as the target, and writes one note to the error stream; when
  no guess is supported it fails with the detection error.
\<close>

theorem resolve_languages_detects_first_supported:
  assumes "input_lang args = None" and "output_lang args = None"
  shows "resolve_languages E args t =
    (case find (\<lambda>l. l \<in> SUPPORTED_LANGS) (List.map_filter lang (results_iter (detect E t 3))) of
       None \<Rightarrow> (Inl (SystemExit (u ''Could not detect language as English or Japanese.'')),
                 [DetectCall t 3])
     | Some l \<Rightarrow> (Inr (l, other_lang l),
                 [DetectCall t 3,
                  StderrWrite (u ''[INFO] Detected '' @ l @ u '' -> '' @ other_lang l @ [0x0A])]))"
  using assms
  by (simp add: resolve_languages_def normalize_lang_def detect_lang_def detect_loop_find Let_def
      split: option.splits)

theorem resolve_languages_detects_first_supported_witness:
  "input_lang default_cli_args = None \<and> output_lang default_cli_args = None \<and>
   resolve_languages (env_guessing [u ''fr'', u ''en'', u ''ja'']) default_cli_args (u ''Hello'') =
     (Inr (u ''en'', u ''ja''),
      [DetectCall (u ''Hello'') 3, StderrWrite (u ''[INFO] Detected en -> ja'' @ [0x0A])]) \<and>
   resolve_languages (env_guessing [u ''fr'', u ''de'', u ''es'']) default_cli_args (u ''Hello'') =
     (Inl (SystemExit (u ''Could not detect language as English or Japanese.'')),
      [DetectCall (u ''Hello'') 3])"
  using resolve_languages_detects_first_supported
          [of default_cli_args "env_guessing [u ''fr'', u ''en'', u ''ja'']" "u ''Hello''"]
        resolve_languages_detects_first_supported
          [of default_cli_args "env_guessing [u ''fr'', u ''de'', u ''es'']" "u ''Hello''"]
  by (simp add: ex_eval u_def)

text \<open>
  Claim C4.  With one side declared, the other side is the complement of the declared
  code and the detector is not called (the run has no event): only the target \<open>en\<close> gives
  \<open>(ja, en)\<close>, only the source \<open>en\<close> gives \<open>(en, ja)\<close>.  The complement maps each supported
  code to a supported code and applying it twice gives the code back.
\<close>

theorem resolve_languages_one_side:
  "(input_lang args = None \<and> normalize_lang E (output_lang args) = Inr (Some out) \<longrightarrow>
      resolve_languages E args t = (Inr (other_lang out, out), [])) \<and>
   (normalize_lang E (input_lang args) = Inr (Some i) \<and> output_lang args = None \<longrightarrow>
      resolve_languages E args t = (Inr (i, other_lang i), [])) \<and>
   other_lang (u ''en'') = u ''ja'' \<and> other_lang (u ''ja'') = u ''en'' \<and>
   (\<forall>x \<in> SUPPORTED_LANGS. other_lang x \<in> SUPPORTED_LANGS \<and> other_lang (other_lang x) = x)"
  by (auto simp: resolve_languages_def normalize_lang_def other_lang_def SUPPORTED_LANGS_def)

theorem resolve_languages_one_side_witness:
  "resolve_languages (env_guessing [u ''en''])
      (default_cli_args\<lparr>output_lang := Some (u ''en'')\<rparr>) (u ''Hello'') = (Inr (u ''ja'', u ''en''), []) \<and>
   resolve_languages (env_guessing [u ''ja''])
      (default_cli_args\<lparr>input_lang := Some (u ''en'')\<rparr>) (u ''Hello'') = (Inr (u ''en'', u ''ja''), []) \<and>
   other_lang (other_lang (u ''ja'')) = u ''ja'' \<and> other_lang (other_lang (u ''en'')) = u ''en''"
proof -
  have n: "\<And>E. normalize_lang E (Some (u ''en'')) = Inr (Some (u ''en''))"
    by (simp add: normalize_lang_Some Let_def str_eval)
  show ?thesis
    using
      resolve_languages_one_side [where E = "env_guessing [u ''en'']"
        and args = "default_cli_args\<lparr>output_lang := Some (u ''en'')\<rparr>" and t = "u ''Hello''"
        and out = "u ''en''" and i = "u ''en''"]
      resolve_languages_one_side [where E = "env_guessing [u ''ja'']"
        and args = "default_cli_args\<lparr>input_lang := Some (u ''en'')\<rparr>" and t = "u ''Hello''"
        and out = "u ''en''" and i = "u ''en''"]
    by (simp add: n default_cli_args_def SUPPORTED_LANGS_def)
qed

subsection \<open>The prompt\<close>

lemma format_template:
  "py_format PROMPT_TEMPLATE [(u ''src_lang'', a), (u ''tgt_lang'', b), (u ''src_text'', t)] =
     Inr (u ''Translate the following '' @ a @ u '' text into '' @ b @ u ''.'' @ [0x0A, 0x0A] @ t)"
  by (simp add: py_format_def PROMPT_TEMPLATE_def u_def prepend_def)

text \<open>
  Claim C9.  For a valid pair (two different supported codes) and any text, building the
  prompt does not fail and gives the template with the English names of the source and
  target languages and the text put in place; the text is copied as it is, braces
  included.
\<close>

theorem build_prompt_substitutes:
  assumes "src \<in> SUPPORTED_LANGS" and "tgt \<in> SUPPORTED_LANGS" and "src \<noteq> tgt"
  shows "build_prompt src tgt t =
     Inr (u ''Translate the following '' @ (if src = u ''en'' then u ''English'' else u ''Japanese'') @
          u '' text into '' @ (if tgt = u ''en'' then u ''English'' else u ''Japanese'') @
          u ''.'' @ [0x0A, 0x0A] @ t)"
proof -
  have "map_of LANG_NAME_MAP src = Some (if src = u ''en'' then u ''English'' else u ''Japanese'')"
    using assms(1) by (auto simp: LANG_NAME_MAP_def SUPPORTED_LANGS_def)
  moreover have "map_of LANG_NAME_MAP tgt = Some (if tgt = u ''en'' then u ''English'' else u ''Japanese'')"
    using assms(2) by (auto simp: LANG_NAME_MAP_def SUPPORTED_LANGS_def)
  ultimately show ?thesis
    by (simp only: build_prompt_def option.case format_template)
qed

theorem build_prompt_substitutes_witness:
  "u ''en'' \<in> SUPPORTED_LANGS \<and> u ''ja'' \<in> SUPPORTED_LANGS \<and> u ''en'' \<noteq> u ''ja'' \<and>
   build_prompt (u ''en'') (u ''ja'') (u ''Hello'') =
     Inr (u ''Translate the following English text into Japanese.'' @ [0x0A, 0x0A] @ u ''Hello'') \<and>
   build_prompt (u ''ja'') (u ''en'') (u ''{src_lang}}'') =
     Inr (u ''Translate the following Japanese text into English.'' @ [0x0A, 0x0A] @ u ''{src_lang}}'')"
  using build_prompt_substitutes [of "u ''en''" "u ''ja''" "u ''Hello''"]
        build_prompt_substitutes [of "u ''ja''" "u ''en''" "u ''{src_lang}}''"]
  by (simp add: SUPPORTED_LANGS_def u_def)

subsection \<open>The sampler of run_mlx\<close>






section \<open>Properties of scripts/to_mlx.py\<close>

subsection \<open>Messages and the file system\<close>

lemma sorted_SUPPORTED_QBITS: "py_sorted SUPPORTED_QBITS = [4, 8]"
proof -
  have "py_sorted SUPPORTED_QBITS = sorted_list_of_set (set [4, 8 :: int])"
    by (simp add: py_sorted_def SUPPORTED_QBITS_def)
  also have "\<dots> = sort (remdups [4, 8 :: int])"
    by (rule sorted_list_of_set_sort_remdups)
  also have "\<dots> = [4, 8]" by simp
  finally show ?thesis .
qed

lemma supported_qbits_msg: "repr_list (map py_str_int (py_sorted SUPPORTED_QBITS)) = u ''[4, 8]''"
  by (simp add: sorted_SUPPORTED_QBITS repr_list_def py_str_int_def digits.simps u_def)

lemma resolve_snoc:
  "resolve F cur (ns @ [n]) =
     (case resolve F cur ns of
        Inl e \<Rightarrow> Inl e
      | Inr c \<Rightarrow>
          (case kind_at F c of
             None \<Rightarrow> Inl ENOENT
           | Some File \<Rightarrow> Inl ENOTDIR
           | Some Dir \<Rightarrow> Inr (if n = u ''..'' then butlast c else c @ [n])))"
  by (induction ns arbitrary: cur) (auto split: option.splits kind.splits)

lemma kind_at_start_dir: "kind_at F (start_dir F p) = Some Dir"
  by (simp add: kind_at_def start_dir_def)

lemma exists_parent_is_dir:
  assumes "path_exists F p"
  shows "is_dir F (parent p)"
proof (cases "segments p = []")
  case True
  then show ?thesis
    by (simp add: is_dir_def lookup_def stat_def parent_def start_dir_def kind_at_def)
next
  case False
  then have s: "segments p = butlast (segments p) @ [last (segments p)]" by simp
  have "start_dir F (parent p) = start_dir F p" by (simp add: start_dir_def parent_def)
  moreover have "resolve F (start_dir F p) (segments p) =
     (case resolve F (start_dir F p) (butlast (segments p)) of
        Inl e \<Rightarrow> Inl e
      | Inr c \<Rightarrow>
          (case kind_at F c of
             None \<Rightarrow> Inl ENOENT
           | Some File \<Rightarrow> Inl ENOTDIR
           | Some Dir \<Rightarrow> Inr (if last (segments p) = u ''..'' then butlast c
                               else c @ [last (segments p)])))"
    using resolve_snoc [of F "start_dir F p" "butlast (segments p)" "last (segments p)"] s
    by simp
  ultimately show ?thesis
    using assms
    by (auto simp: path_exists_def is_dir_def lookup_def stat_def parent_def
        split: sum.splits option.splits kind.splits)
qed

lemma mkdir_parents_is_dir:
  assumes "is_dir F p"
  shows "mkdir_parents F p = Inr F"
  using assms
  by (subst mkdir_parents.simps)
     (auto simp: os_mkdir_def is_dir_def lookup_def stat_def
       split: sum.splits option.splits errno.splits)

lemma convert_one_exists:
  assumes "path_exists (files w) (out_dir_of args mdl qb)"
  shows "convert_one E args mdl qb w =
     (Inl (SystemExit
        (u ''Output path already exists: '' @ path_str (out_dir_of args mdl qb) @ u ''. '' @
         u ''Please delete/move it or choose another output directory.'')), w)"
  using assms mkdir_parents_is_dir [OF exists_parent_is_dir [OF assms]]
  by (simp add: convert_one_def Let_def)

lemma qbits_loop_run_jobs:
  "qbits_loop E args mdl qs w = run_jobs E args (map (\<lambda>q. (mdl, q)) qs) w"
  by (induction qs arbitrary: w) (auto split: prod.splits sum.splits)

lemma run_jobs_append:
  "run_jobs E args (xs @ ys) w =
     (case run_jobs E args xs w of
        (Inl e, w') \<Rightarrow> (Inl e, w')
      | (Inr _, w') \<Rightarrow> run_jobs E args ys w')"
  by (induction xs arbitrary: w) (auto split: prod.splits sum.splits)

lemma models_loop_run_jobs:
  "models_loop E args ms w =
     run_jobs E args (concat (map (\<lambda>m. map (\<lambda>q. (m, q)) (qbits args)) ms)) w"
  by (induction ms arbitrary: w)
     (auto simp: qbits_loop_run_jobs run_jobs_append split: prod.splits sum.splits)



lemma to_mlx_main_valid:
  assumes "\<forall>q \<in> set (qbits args). q \<in> SUPPORTED_QBITS"
  shows "to_mlx_main E args w =
     (case run_jobs E args
             (concat (map (\<lambda>m. map (\<lambda>q. (m, q)) (qbits args)) (models_or_default args))) w of
        (Inl e, w') \<Rightarrow> (Inl e, w')
      | (Inr _, w') \<Rightarrow> (Inr 0, w'))"
proof -
  have "filter (\<lambda>q. q \<notin> SUPPORTED_QBITS) (qbits args) = []"
    using assms by (simp add: filter_empty_conv)
  then show ?thesis
    by (simp add: to_mlx_main_def Let_def models_loop_run_jobs)
qed

subsection \<open>The example command line\<close>

lemmas path_eval = path_of_def truediv_def path_str_def split_on_def parent_def
  py_str_int_def digits.simps u_def

lemma two_models_q8_fields:
  "models_or_default two_models_q8 = [u ''m1'', u ''m2'']"
  "qbits two_models_q8 = [8]"
  "output_dir two_models_q8 = path_of (u ''out'')"
  "q_group_size two_models_q8 = None"
  "dtype two_models_q8 = None"
  "conv_trust_remote_code two_models_q8 = False"
  by (simp_all add: two_models_q8_def models_or_default_def default_conv_args_def)

lemma two_models_q8_valid: "\<forall>q \<in> set (qbits two_models_q8). q \<in> SUPPORTED_QBITS"
  by (simp add: two_models_q8_fields SUPPORTED_QBITS_def)

lemma two_models_q8_jobs:
  "concat (map (\<lambda>m. map (\<lambda>q. (m, q)) (qbits two_models_q8)) (models_or_default two_models_q8))
     = [(u ''m1'', 8), (u ''m2'', 8)]"
  by (simp add: two_models_q8_fields)

lemma py_str_int_8: "py_str_int 8 = u ''8''"
  by (simp add: py_str_int_def digits.simps u_def)

lemma out_q8_paths:
  "truediv (truediv (path_of (u ''out'')) (u ''m1'')) (u ''q'' @ u ''8'') = path_of (u ''out/m1/q8'')"
  "truediv (truediv (path_of (u ''out'')) (u ''m2'')) (u ''q'' @ u ''8'') = path_of (u ''out/m2/q8'')"
  "path_str (path_of (u ''out/m1/q8'')) = u ''out/m1/q8''"
  "path_str (path_of (u ''out/m2/q8'')) = u ''out/m2/q8''"
  by (simp_all add: path_eval Let_def)


text \<open>
  Two runs that depend on how the operating system walks a path.  The model \<open>a/../b\<close>
  names the output of the model \<open>b\<close>, so its job is refused once \<open>b\<close> is converted.  With
  a file at \<open>out\<close>, making the directory \<open>out/a/b\<close> fails, and the error names that path.
\<close>

lemma alias_of_converted_model_refused:
  "fst (to_mlx_main conv_env_ok
          (default_conv_args\<lparr>models := Some [u ''b'', u ''a/../b''], qbits := [8],
                             output_dir := path_of (u ''out'')\<rparr>) empty_world) =
     Inl (SystemExit (u ''Output path already exists: out/a/../b/q8. Please delete/move it or choose another output directory.''))"
  by code_simp

lemma file_above_output_refused:
  "fst (to_mlx_main conv_env_ok
          (default_conv_args\<lparr>models := Some [u ''a/b''], qbits := [8],
                             output_dir := path_of (u ''out'')\<rparr>)
          \<lparr>files = \<lparr>entries = [[u ''work'', u ''out''] \<mapsto> File], cwd = [u ''work'']\<rparr>,
           printed = [], started = []\<rparr>) =
     Inl (NotADirectoryError (u ''out/a/b''))"
  by code_simp

subsection \<open>The claims about the conversion driver\<close>

text \<open>
  Claim C6.  When some requested bit-width is neither 4 nor 8, the driver fails with a
  message that lists all the invalid values, in the order given, and leaves the world
  as it was: no directory made, nothing printed, no command started.  For
  \<open>--qbits 4 16\<close> the list in the message is \<open>[16]\<close>.
\<close>

theorem to_mlx_main_invalid_qbits:
  assumes "\<exists>q \<in> set (qbits args). q \<notin> SUPPORTED_QBITS"
  shows "to_mlx_main E args w =
     (Inl (SystemExit
        (u ''Unsupported qbits: '' @
         repr_list (map py_str_int (filter (\<lambda>q. q \<noteq> 4 \<and> q \<noteq> 8) (qbits args))) @
         u ''. Supported values: [4, 8]'')), w)"
proof -
  have "filter (\<lambda>q. q \<notin> SUPPORTED_QBITS) (qbits args) \<noteq> []"
    using assms by (simp add: filter_empty_conv)
  moreover have "(\<lambda>q. q \<notin> SUPPORTED_QBITS) = (\<lambda>q. q \<noteq> 4 \<and> q \<noteq> 8)"
    by (auto simp: SUPPORTED_QBITS_def)
  ultimately show ?thesis
    by (simp add: to_mlx_main_def Let_def supported_qbits_msg u_def)
qed

theorem to_mlx_main_invalid_qbits_witness:
  "(\<exists>q \<in> set (qbits (default_conv_args\<lparr>qbits := [4, 16]\<rparr>)). q \<notin> SUPPORTED_QBITS) \<and>
   to_mlx_main conv_env_ok (default_conv_args\<lparr>qbits := [4, 16]\<rparr>) empty_world =
     (Inl (SystemExit (u ''Unsupported qbits: [16]. Supported values: [4, 8]'')), empty_world)"
proof -
  have h: "\<exists>q \<in> set (qbits (default_conv_args\<lparr>qbits := [4, 16]\<rparr>)). q \<notin> SUPPORTED_QBITS"
    by (simp add: SUPPORTED_QBITS_def)
  show ?thesis
    using h to_mlx_main_invalid_qbits [OF h, of conv_env_ok empty_world]
    by (simp add: repr_list_def py_str_int_def digits.simps u_def)
qed




text \<open>
  Claim C8.  When the jobs before a job have succeeded and the output path of that job
  exists, the driver fails with the message that names this path, and the world is the
  one in which the job was reached: no command is started for this job or a later one,
  and no file is removed or changed.
\<close>

theorem to_mlx_main_output_exists:
  assumes "\<forall>q \<in> set (qbits args). q \<in> SUPPORTED_QBITS"
    and "concat (map (\<lambda>m. map (\<lambda>q. (m, q)) (qbits args)) (models_or_default args)) =
           pre @ (mdl, qb) # post"
    and "run_jobs E args pre w = (Inr (), w1)"
    and "path_exists (files w1) (truediv (truediv (output_dir args) mdl) (u ''q'' @ py_str_int qb))"
  shows "to_mlx_main E args w =
     (Inl (SystemExit
        (u ''Output path already exists: '' @
         path_str (truediv (truediv (output_dir args) mdl) (u ''q'' @ py_str_int qb)) @
         u ''. Please delete/move it or choose another output directory.'')), w1)"
proof -
  have e: "path_exists (files w1) (out_dir_of args mdl qb)"
    using assms(4) by (simp add: out_dir_of_def)
  show ?thesis
    by (simp add: to_mlx_main_valid [OF assms(1)] assms(2) run_jobs_append assms(3)
        convert_one_exists [OF e] out_dir_of_def u_def)
qed

theorem to_mlx_main_output_exists_witness:
  "to_mlx_main conv_env_ok two_models_q8 (world_with_dirs [u ''out'', u ''out/m1'', u ''out/m1/q8'']) =
     (Inl (SystemExit (u ''Output path already exists: out/m1/q8. Please delete/move it or choose another output directory.'')),
      world_with_dirs [u ''out'', u ''out/m1'', u ''out/m1/q8''])"
proof -
  let ?W = "world_with_dirs [u ''out'', u ''out/m1'', u ''out/m1/q8'']"
  have j: "concat (map (\<lambda>m. map (\<lambda>q. (m, q)) (qbits two_models_q8)) (models_or_default two_models_q8))
      = [] @ (u ''m1'', 8) # [(u ''m2'', 8)]"
    by (simp add: two_models_q8_jobs)
  have p: "run_jobs conv_env_ok two_models_q8 [] ?W = (Inr (), ?W)" by simp
  have x: "path_exists (files ?W)
      (truediv (truediv (output_dir two_models_q8) (u ''m1'')) (u ''q'' @ py_str_int 8))"
    by code_simp
  have "to_mlx_main conv_env_ok two_models_q8 ?W =
     (Inl (SystemExit
        (u ''Output path already exists: '' @ u ''out/m1/q8'' @
         u ''. Please delete/move it or choose another output directory.'')), ?W)"
    using to_mlx_main_output_exists [OF two_models_q8_valid j p x]
    by (simp add: two_models_q8_fields py_str_int_8 out_q8_paths)
  then show ?thesis by (simp add: u_def)
qed

end
